theory Spec2Isabelle
  imports Main
begin

section \<open>Asset registry chaincode (plob/chaincode/assetregistry.go)\<close>

subsection \<open>Go values\<close>

text \<open>
  A Go string is a sequence of bytes, as is a HOL \<open>string\<close>. A Go \<open>[]byte\<close> is
  either \<open>nil\<close> or a sequence of bytes; the handlers test their argument against
  \<open>nil\<close>, so a slice is an option and \<open>None\<close> is \<open>nil\<close>.
\<close>

type_synonym bytes = "char list"
type_synonym slice = "bytes option"

text \<open>The conversion \<open>string(b)\<close>: the \<open>nil\<close> slice converts to the empty string.\<close>

fun string_of :: "slice \<Rightarrow> string" where
  "string_of None = []"
| "string_of (Some b) = b"

text \<open>\<open>bytes.Equal(a, b)\<close>: equal length and equal contents; a \<open>nil\<close> argument is an empty slice.\<close>

definition bytes_Equal :: "slice \<Rightarrow> slice \<Rightarrow> bool" where
  "bytes_Equal a b = (string_of a = string_of b)"

subsection \<open>Data model\<close>

text \<open>
  Modelled from the spec: the messages \<open>Owner\<close> and \<open>Asset\<close>, whose generated
  declarations are not among the sources. The fields are those of section 3, under the
  names and with the Go types the chaincode uses them at: \<open>Id\<close> is a \<open>[]byte\<close>,
  \<open>LockedToChannel\<close> a string, and \<open>History\<close> a \<open>[]*Owner\<close>, so an entry can be the
  \<open>nil\<close> pointer.
\<close>

record Owner =
  Id_field :: slice

record Asset =
  LockedToChannel :: string
  History :: "Owner option list"

text \<open>
  \<open>proto.Marshal\<close> and \<open>proto.Unmarshal\<close> for \<open>Asset\<close>. The generated message code is
  not part of the sources, so the encoding is a parameter of every function that uses it.
  Both calls can return an error, whose text is kept.
\<close>

record codec =
  Marshal :: "Asset \<Rightarrow> string + bytes"
  Unmarshal :: "bytes \<Rightarrow> string + Asset"

subsection \<open>Errors\<close>

text \<open>One constructor for each place where the chaincode builds an error.\<close>

datatype error =
    OnlyOneArgument
  | NoArguments
  | TooManyArguments
  | CouldNotGetCreator string
  | CouldNotGetAsset string string
  | UnmarshalError string
  | CreateTooManyArguments
  | CreateKeyExists
  | MarshalError string
  | CouldNotPutState string string
  | LockNoToChannel
  | LockNotExist
  | AlreadyLocked string string
  | LockNotAuthorized string
  | ShowNoFromChannel
  | ShowExtantUnlocked
  | ShowNewerHistory
  | TransferNoTarget
  | TransferNotExist
  | TransferLocked
  | TransferNotAuthorized string
  | QueryTooManyArgs
  | QueryNoAsset

text \<open>\<open>err.Error()\<close>: the message each \<open>fmt.Errorf\<close> call formats.\<close>

fun Error_text :: "error \<Rightarrow> string" where
  "Error_text OnlyOneArgument = ''Invoke called with only one argument''"
| "Error_text NoArguments = ''Invoke called with no arguments''"
| "Error_text TooManyArguments = ''Invoke called with too many arguments''"
| "Error_text (CouldNotGetCreator err) = ''Could not get creator: '' @ err"
| "Error_text (CouldNotGetAsset k err) = ''Could not get asset for key '' @ k @ '': '' @ err"
| "Error_text (UnmarshalError err) = ''Unexpected error unmarshaling: '' @ err"
| "Error_text CreateTooManyArguments =
     ''Too many arguments to '' @ [CHR 0x27] @ ''create'' @ [CHR 0x27]"
| "Error_text CreateKeyExists = ''Cannot create an asset who'' @ [CHR 0x27] @ ''s key already exists''"
| "Error_text (MarshalError err) = ''Error marshaling proto: '' @ err"
| "Error_text (CouldNotPutState k err) = ''Could not put state for key '' @ k @ '': '' @ err"
| "Error_text LockNoToChannel = ''Must pass toChannel argument''"
| "Error_text LockNotExist = ''Cannot lock asset which does not exist''"
| "Error_text (AlreadyLocked k c) = ''Asset '' @ k @ '' is already locked to '' @ c"
| "Error_text (LockNotAuthorized k) = ''Not authorized to lock asset '' @ k"
| "Error_text ShowNoFromChannel = ''Must pass fromChannel argument''"
| "Error_text ShowExtantUnlocked = ''Cannot show an extant unlocked asset''"
| "Error_text ShowNewerHistory = ''Asset has already been shown with newer history''"
| "Error_text TransferNoTarget = ''Must pass target to transfer to''"
| "Error_text TransferNotExist = ''Cannot transfer an asset which does not exist''"
| "Error_text TransferLocked =
     ''Cannot transfer an asset which has been locked to another channel''"
| "Error_text (TransferNotAuthorized k) = ''Not authorized to transfer asset '' @ k"
| "Error_text QueryTooManyArgs = ''Too many args to '' @ [CHR 0x27] @ ''query'' @ [CHR 0x27]"
| "Error_text QueryNoAsset = ''No asset found''"

text \<open>
  Modelled from the spec: the kinds of failure. The chaincode has no such type and
  reports a failure by its message only; the specification classifies the failures
  (section 7, and the "Fails ..." lines of sections 4.1 to 4.7), and \<open>kind\<close> follows those
  lines place by place. A failed encoding counts with the failures of the collaborators.
\<close>

datatype ErrorKind =
  BadRequest | NotFound | Conflict | Unauthorized | Corruption | InfrastructureError

fun kind :: "error \<Rightarrow> ErrorKind" where
  "kind OnlyOneArgument = BadRequest"
| "kind NoArguments = BadRequest"
| "kind TooManyArguments = BadRequest"
| "kind (CouldNotGetCreator err) = InfrastructureError"
| "kind (CouldNotGetAsset k err) = InfrastructureError"
| "kind (UnmarshalError err) = Corruption"
| "kind CreateTooManyArguments = BadRequest"
| "kind CreateKeyExists = Conflict"
| "kind (MarshalError err) = InfrastructureError"
| "kind (CouldNotPutState k err) = InfrastructureError"
| "kind LockNoToChannel = BadRequest"
| "kind LockNotExist = NotFound"
| "kind (AlreadyLocked k c) = Conflict"
| "kind (LockNotAuthorized k) = Unauthorized"
| "kind ShowNoFromChannel = BadRequest"
| "kind ShowExtantUnlocked = Conflict"
| "kind ShowNewerHistory = Conflict"
| "kind TransferNoTarget = BadRequest"
| "kind TransferNotExist = NotFound"
| "kind TransferLocked = Conflict"
| "kind (TransferNotAuthorized k) = Unauthorized"
| "kind QueryTooManyArgs = BadRequest"
| "kind QueryNoAsset = NotFound"

subsection \<open>The chaincode stub\<close>

text \<open>
  \<open>shim.ChaincodeStubInterface\<close>, as far as the chaincode calls it: the arguments of the
  invocation, the creator, and the world state with \<open>GetState\<close> and \<open>PutState\<close>. Each
  call that returns an \<open>error\<close> in Go can fail here: \<open>creator_result\<close> is the outcome of
  \<open>GetCreator\<close>, and \<open>get_error\<close> and \<open>put_error\<close> say for which calls the ledger
  answers with an error (\<open>None\<close>: the call succeeds). A \<open>PutState\<close> that returns an
  error has written nothing.
\<close>

record ChaincodeStub =
  args :: "slice list"
  creator_result :: "string + slice"
  state :: "string \<rightharpoonup> bytes"
  get_error :: "string \<Rightarrow> string option"
  put_error :: "string \<Rightarrow> bytes \<Rightarrow> string option"

definition GetArgs :: "ChaincodeStub \<Rightarrow> slice list" where
  "GetArgs s = args s"

definition GetCreator :: "ChaincodeStub \<Rightarrow> string + slice" where
  "GetCreator s = creator_result s"

text \<open>\<open>GetState\<close> returns \<open>nil\<close> bytes and no error for a key that holds no value.\<close>

definition GetState :: "ChaincodeStub \<Rightarrow> string \<Rightarrow> string + slice" where
  "GetState s k = (case get_error s k of Some err \<Rightarrow> Inl err | None \<Rightarrow> Inr (state s k))"

definition PutState :: "ChaincodeStub \<Rightarrow> string \<Rightarrow> bytes \<Rightarrow> string option \<times> ChaincodeStub" where
  "PutState s k v =
     (case put_error s k v of
        Some err \<Rightarrow> (Some err, s)
      | None \<Rightarrow> (None, s\<lparr>state := (state s)(k \<mapsto> v)\<rparr>))"

text \<open>\<open>sc.Response\<close> as built by \<open>shim.Error\<close> (a message) and \<open>shim.Success\<close> (a payload).\<close>

datatype Response = shim_Error string | shim_Success slice

subsection \<open>parseArgs\<close>

text \<open>
  The four named results \<open>(function, key, arg, err)\<close>; a result that is not assigned
  keeps its zero value. Case 3 assigns \<open>arg\<close> and falls through to case 2.
\<close>

fun parseArgs :: "slice list \<Rightarrow> string \<times> string \<times> slice \<times> error option" where
  "parseArgs [a0, a1, a2] = (string_of a0, string_of a1, a2, None)"
| "parseArgs [a0, a1] = (string_of a0, string_of a1, None, None)"
| "parseArgs [a0] = ([], [], None, Some OnlyOneArgument)"
| "parseArgs [] = ([], [], None, Some NoArguments)"
| "parseArgs (a0 # a1 # a2 # a3 # as) = ([], [], None, Some TooManyArguments)"

subsection \<open>The asset context\<close>

record assetContext =
  stub :: ChaincodeStub
  creator :: slice
  asset :: "Asset option"
  function_name :: string
  key :: string
  functionArg :: slice

definition newAssetContext :: "codec \<Rightarrow> ChaincodeStub \<Rightarrow> error + assetContext" where
  "newAssetContext pb s =
     (case parseArgs (GetArgs s) of
        (fn, k, arg, Some err) \<Rightarrow> Inl err
      | (fn, k, arg, None) \<Rightarrow>
          (case GetCreator s of
             Inl err \<Rightarrow> Inl (CouldNotGetCreator err)
           | Inr c \<Rightarrow>
               (case GetState s k of
                  Inl err \<Rightarrow> Inl (CouldNotGetAsset k err)
                | Inr None \<Rightarrow>
                    Inr \<lparr>stub = s, creator = c, asset = None,
                         function_name = fn, key = k, functionArg = arg\<rparr>
                | Inr (Some assetBytes) \<Rightarrow>
                    (case Unmarshal pb assetBytes of
                       Inl err \<Rightarrow> Inl (UnmarshalError err)
                     | Inr a \<Rightarrow>
                         Inr \<lparr>stub = s, creator = c, asset = Some a,
                              function_name = fn, key = k, functionArg = arg\<rparr>))))"

definition ownsAsset :: "assetContext \<Rightarrow> bool" where
  "ownsAsset ac =
     (case asset ac of
        None \<Rightarrow> False
      | Some a \<Rightarrow>
          if length (History a) = 0 then False
          else (case History a ! (length (History a) - 1) of
                  None \<Rightarrow> False
                | Some assetOwner \<Rightarrow> bytes_Equal (Id_field assetOwner) (creator ac)))"

subsection \<open>The handlers\<close>

text \<open>
  A handler returns its Go result (an error, or the bytes) and the context after the
  call: \<open>PutState\<close> changes the stub the context holds, \<open>lock\<close> and \<open>transfer\<close> assign to
  the asset the context holds.
\<close>

definition put_and_return :: "assetContext \<Rightarrow> bytes \<Rightarrow> (error + bytes) \<times> assetContext" where
  "put_and_return ac assetBytes =
     (case PutState (stub ac) (key ac) assetBytes of
        (Some err, stub') \<Rightarrow> (Inl (CouldNotPutState (key ac) err), ac\<lparr>stub := stub'\<rparr>)
      | (None, stub') \<Rightarrow> (Inr assetBytes, ac\<lparr>stub := stub'\<rparr>))"

definition create :: "codec \<Rightarrow> assetContext \<Rightarrow> (error + bytes) \<times> assetContext" where
  "create pb ac =
     (if functionArg ac \<noteq> None then (Inl CreateTooManyArguments, ac)
      else if asset ac \<noteq> None then (Inl CreateKeyExists, ac)
      else
        (case Marshal pb \<lparr>LockedToChannel = [],
                           History = [Some \<lparr>Id_field = creator ac\<rparr>]\<rparr> of
           Inl err \<Rightarrow> (Inl (MarshalError err), ac)
         | Inr assetBytes \<Rightarrow> put_and_return ac assetBytes))"

definition lock :: "codec \<Rightarrow> assetContext \<Rightarrow> (error + bytes) \<times> assetContext" where
  "lock pb ac =
     (if functionArg ac = None then (Inl LockNoToChannel, ac)
      else
        let toChannel = string_of (functionArg ac) in
        (case asset ac of
           None \<Rightarrow> (Inl LockNotExist, ac)
         | Some a \<Rightarrow>
             if LockedToChannel a \<noteq> [] then (Inl (AlreadyLocked (key ac) (LockedToChannel a)), ac)
             else if \<not> ownsAsset ac then (Inl (LockNotAuthorized (key ac)), ac)
             else
               let a' = a\<lparr>LockedToChannel := toChannel\<rparr>;
                   ac' = ac\<lparr>asset := Some a'\<rparr>
               in (case Marshal pb a' of
                     Inl err \<Rightarrow> (Inl (MarshalError err), ac')
                   | Inr assetBytes \<Rightarrow> put_and_return ac' assetBytes)))"

text \<open>
  \<open>show\<close>: the asset "fetched" from the other channel is built from the creator alone;
  \<open>fromChannel\<close> is assigned to the blank identifier.
\<close>

definition show_op :: "codec \<Rightarrow> assetContext \<Rightarrow> (error + bytes) \<times> assetContext" where
  "show_op pb ac =
     (if functionArg ac = None then (Inl ShowNoFromChannel, ac)
      else
        let fromChannel = string_of (functionArg ac) in
        if (case asset ac of None \<Rightarrow> False | Some a \<Rightarrow> LockedToChannel a = [])
        then (Inl ShowExtantUnlocked, ac)
        else
          let fromAsset = \<lparr>LockedToChannel = [], History = [Some \<lparr>Id_field = creator ac\<rparr>]\<rparr> in
          if (case asset ac of None \<Rightarrow> False
              | Some a \<Rightarrow> length (History a) \<ge> length (History fromAsset))
          then (Inl ShowNewerHistory, ac)
          else
            (case Marshal pb
                    \<lparr>LockedToChannel = [],
                     History = History fromAsset @
                               [History fromAsset ! (length (History fromAsset) - 1)]\<rparr> of
               Inl err \<Rightarrow> (Inl (MarshalError err), ac)
             | Inr toAssetBytes \<Rightarrow> put_and_return ac toAssetBytes))"

definition transfer :: "codec \<Rightarrow> assetContext \<Rightarrow> (error + bytes) \<times> assetContext" where
  "transfer pb ac =
     (if functionArg ac = None then (Inl TransferNoTarget, ac)
      else
        let toID = functionArg ac in
        (case asset ac of
           None \<Rightarrow> (Inl TransferNotExist, ac)
         | Some a \<Rightarrow>
             if LockedToChannel a \<noteq> [] then (Inl TransferLocked, ac)
             else if \<not> ownsAsset ac then (Inl (TransferNotAuthorized (key ac)), ac)
             else
               let a' = a\<lparr>History := History a @ [Some \<lparr>Id_field = toID\<rparr>]\<rparr>;
                   ac' = ac\<lparr>asset := Some a'\<rparr>
               in (case Marshal pb a' of
                     Inl err \<Rightarrow> (Inl (MarshalError err), ac')
                   | Inr assetBytes \<Rightarrow> put_and_return ac' assetBytes)))"

definition query :: "codec \<Rightarrow> assetContext \<Rightarrow> (error + bytes) \<times> assetContext" where
  "query pb ac =
     (if functionArg ac = None then (Inl QueryTooManyArgs, ac)
      else
        (case asset ac of
           None \<Rightarrow> (Inl QueryNoAsset, ac)
         | Some a \<Rightarrow>
             (case Marshal pb a of
                Inl err \<Rightarrow> (Inl (MarshalError err), ac)
              | Inr assetBytes \<Rightarrow> (Inr assetBytes, ac))))"

subsection \<open>Dispatch\<close>

text \<open>The end of \<open>execute\<close>: an error becomes \<open>shim.Error\<close> of its text, bytes become \<open>shim.Success\<close>.\<close>

definition respond :: "(error + bytes) \<times> assetContext \<Rightarrow> Response \<times> ChaincodeStub" where
  "respond r =
     (case r of
        (Inl err, ac) \<Rightarrow> (shim_Error (Error_text err), stub ac)
      | (Inr result, ac) \<Rightarrow> (shim_Success (Some result), stub ac))"

definition execute :: "codec \<Rightarrow> assetContext \<Rightarrow> Response \<times> ChaincodeStub" where
  "execute pb ac =
     (if function_name ac = ''create'' then respond (create pb ac)
      else if function_name ac = ''lock'' then respond (lock pb ac)
      else if function_name ac = ''show'' then respond (show_op pb ac)
      else if function_name ac = ''transfer'' then respond (transfer pb ac)
      else if function_name ac = ''query'' then respond (query pb ac)
      else (shim_Error ''Invalid invocation function'', stub ac))"

definition Init :: "ChaincodeStub \<Rightarrow> Response \<times> ChaincodeStub" where
  "Init s = (shim_Success None, s)"

definition Invoke :: "codec \<Rightarrow> ChaincodeStub \<Rightarrow> Response \<times> ChaincodeStub" where
  "Invoke pb s =
     (case newAssetContext pb s of
        Inl err \<Rightarrow> (shim_Error (Error_text err), s)
      | Inr ac \<Rightarrow> execute pb ac)"

text \<open>
  The peer runs one invocation after another, each with its own arguments and creator, on
  the ledger the one before has left.
\<close>

fun invocations ::
  "codec \<Rightarrow> (slice list \<times> (string + slice)) list \<Rightarrow> ChaincodeStub \<Rightarrow> ChaincodeStub" where
  "invocations pb [] s = s"
| "invocations pb ((as, c) # txs) s =
     invocations pb txs (snd (Invoke pb (s\<lparr>args := as, creator_result := c\<rparr>)))"

text \<open>
  Every value on a ledger that only the chaincode has written is the encoding of an asset
  with a history that is not empty.
\<close>

definition written_by_chaincode :: "codec \<Rightarrow> ChaincodeStub \<Rightarrow> bool" where
  "written_by_chaincode pb s \<longleftrightarrow>
     (\<forall>k b. state s k = Some b \<longrightarrow> (\<exists>a. Marshal pb a = Inr b \<and> History a \<noteq> []))"

text \<open>
  What the freezing of a locked asset needs of the encoding: the asset \<open>Unmarshal\<close> reads
  from the bytes \<open>Marshal\<close> wrote for an asset with owners has owners. An encoding that
  reads back what it wrote has this property.
\<close>

definition keeps_history :: "codec \<Rightarrow> bool" where
  "keeps_history pb \<longleftrightarrow>
     (\<forall>a b a'. Marshal pb a = Inr b \<longrightarrow> Unmarshal pb b = Inr a' \<longrightarrow>
        History a \<noteq> [] \<longrightarrow> History a' \<noteq> [])"

subsection \<open>A concrete encoding and stub for the examples\<close>

text \<open>
  The examples below need an encoding that computes. This one writes the channel name
  followed by \<open>|\<close> and the identity for each owner of the history, and fails, as
  \<open>proto.Marshal\<close> does, on a \<open>nil\<close> entry of a repeated field. It reads back what it
  wrote as long as no name contains the separator. The theorems hold for every encoding.
\<close>

fun example_history :: "Owner option list \<Rightarrow> bytes option" where
  "example_history [] = Some []"
| "example_history (None # os) = None"
| "example_history (Some w # os) =
     map_option (\<lambda>r. CHR ''|'' # string_of (Id_field w) @ r) (example_history os)"

fun fields :: "bytes \<Rightarrow> bytes list" where
  "fields [] = [[]]"
| "fields (c # cs) =
     (if c = CHR ''|'' then [] # fields cs
      else (case fields cs of [] \<Rightarrow> [[c]] | f # fs \<Rightarrow> (c # f) # fs))"

definition example_codec :: codec where
  "example_codec =
     \<lparr>Marshal = (\<lambda>a. case example_history (History a) of
                      None \<Rightarrow> Inl ''proto: repeated field History has nil element''
                    | Some h \<Rightarrow> Inr (LockedToChannel a @ h)),
      Unmarshal = (\<lambda>b. case fields b of
                      [] \<Rightarrow> Inl ''unexpected EOF''
                    | l # ids \<Rightarrow> Inr \<lparr>LockedToChannel = l,
                                      History = map (\<lambda>i. Some \<lparr>Id_field = Some i\<rparr>) ids\<rparr>)\<rparr>"

text \<open>A stub whose ledger never fails, and a context for the key \<open>assetA\<close>.\<close>

definition example_stub :: "slice list \<Rightarrow> slice \<Rightarrow> (string \<rightharpoonup> bytes) \<Rightarrow> ChaincodeStub" where
  "example_stub as c st =
     \<lparr>args = as, creator_result = Inr c, state = st,
      get_error = (\<lambda>k. None), put_error = (\<lambda>k v. None)\<rparr>"

definition example_context ::
  "slice \<Rightarrow> Asset option \<Rightarrow> string \<Rightarrow> slice \<Rightarrow> assetContext" where
  "example_context c a fn arg =
     \<lparr>stub = example_stub [] c Map.empty, creator = c, asset = a,
      function_name = fn, key = ''assetA'', functionArg = arg\<rparr>"

text \<open>An asset created by \<open>A\<close>, and the same asset locked to \<open>channel2\<close>.\<close>

definition asset_of_A :: Asset where
  "asset_of_A = \<lparr>LockedToChannel = [], History = [Some \<lparr>Id_field = Some ''A''\<rparr>]\<rparr>"

definition locked_asset_of_A :: Asset where
  "locked_asset_of_A =
     \<lparr>LockedToChannel = ''channel2'', History = [Some \<lparr>Id_field = Some ''A''\<rparr>]\<rparr>"

text \<open>\<open>A\<close> creates \<open>assetA\<close> and locks it to \<open>channel2\<close>.\<close>

definition created_and_locked :: "(slice list \<times> (string + slice)) list" where
  "created_and_locked =
     [([Some ''create'', Some ''assetA''], Inr (Some ''A'')),
      ([Some ''lock'', Some ''assetA'', Some ''channel2''], Inr (Some ''A''))]"

section \<open>The request parser\<close>

text \<open>
  C3. \<open>parseArgs\<close> fails for an argument list of length 0, 1, or 4 and more. For length 2
  it returns the function name \<open>args[0]\<close>, the key \<open>args[1]\<close> and no optional argument;
  for length 3 the optional argument is \<open>args[2]\<close>. It is a function of the argument
  list alone: it takes no stub and returns none, so it has no effect on the ledger.
\<close>

theorem parseArgs_by_length:
  "(length as = 0 \<or> length as = 1 \<or> 4 \<le> length as \<longrightarrow>
      (\<exists>err. parseArgs as = ([], [], None, Some err) \<and> kind err = BadRequest))
   \<and> (length as = 2 \<longrightarrow>
      parseArgs as = (string_of (as ! 0), string_of (as ! 1), None, None))
   \<and> (length as = 3 \<longrightarrow>
      parseArgs as = (string_of (as ! 0), string_of (as ! 1), as ! 2, None))"
  by (induction as rule: parseArgs.induct) simp_all

theorem parseArgs_by_length_witness:
  "(\<exists>err. parseArgs [] = ([], [], None, Some err) \<and> kind err = BadRequest)
   \<and> (\<exists>err. parseArgs [Some ''query''] = ([], [], None, Some err) \<and> kind err = BadRequest)
   \<and> (\<exists>err. parseArgs [Some ''lock'', Some ''assetA'', Some ''channel2'', Some ''x'']
               = ([], [], None, Some err) \<and> kind err = BadRequest)
   \<and> parseArgs [Some ''query'', Some ''assetA''] = (''query'', ''assetA'', None, None)
   \<and> parseArgs [Some ''lock'', Some ''assetA'', Some ''channel2'']
       = (''lock'', ''assetA'', Some ''channel2'', None)"
  using parseArgs_by_length [of "[]"]
        parseArgs_by_length [of "[Some ''query'']"]
        parseArgs_by_length [of "[Some ''lock'', Some ''assetA'', Some ''channel2'', Some ''x'']"]
        parseArgs_by_length [of "[Some ''query'', Some ''assetA'']"]
        parseArgs_by_length [of "[Some ''lock'', Some ''assetA'', Some ''channel2'']"]
  by simp

section \<open>Facts shared by the handlers\<close>

text \<open>
  \<open>ownsAsset\<close> in words: the asset exists, its history is not empty, the last entry is
  not \<open>nil\<close>, and its identity is byte-equal to the creator.
\<close>

lemma ownsAsset_iff:
  "ownsAsset ac \<longleftrightarrow>
     (\<exists>a w. asset ac = Some a \<and> History a \<noteq> [] \<and> last (History a) = Some w
            \<and> bytes_Equal (Id_field w) (creator ac))"
  by (auto simp: ownsAsset_def last_conv_nth split: option.splits)

lemmas example_defs =
  example_context_def example_stub_def example_codec_def asset_of_A_def locked_asset_of_A_def

section \<open>create\<close>

text \<open>
  C2. A \<open>create\<close> without an extra argument fails with a Conflict when an asset exists
  at the key, whoever the creator is. Otherwise, when the encoding and the ledger write
  succeed, it writes and returns the bytes of an asset whose \<open>LockedToChannel\<close> is
  empty and whose history is the single owner holding the creator's identity. The one
  other outcome is the error of the encoding or of the ledger, with nothing written.
\<close>

theorem create_conflict_or_new_asset:
  assumes "functionArg ac = None"
  shows "(asset ac \<noteq> None \<longrightarrow> (\<exists>err. create pb ac = (Inl err, ac) \<and> kind err = Conflict))
     \<and> (asset ac = None \<longrightarrow>
          (\<forall>assetBytes.
             Marshal pb \<lparr>LockedToChannel = [], History = [Some \<lparr>Id_field = creator ac\<rparr>]\<rparr>
               = Inr assetBytes \<longrightarrow>
             put_error (stub ac) (key ac) assetBytes = None \<longrightarrow>
             create pb ac =
               (Inr assetBytes,
                ac\<lparr>stub := (stub ac)\<lparr>state := (state (stub ac))(key ac \<mapsto> assetBytes)\<rparr>\<rparr>)))
     \<and> (asset ac = None \<longrightarrow>
          (\<exists>assetBytes.
             Marshal pb \<lparr>LockedToChannel = [], History = [Some \<lparr>Id_field = creator ac\<rparr>]\<rparr>
               = Inr assetBytes
             \<and> create pb ac =
                 (Inr assetBytes,
                  ac\<lparr>stub := (stub ac)\<lparr>state := (state (stub ac))(key ac \<mapsto> assetBytes)\<rparr>\<rparr>))
          \<or> (\<exists>err. create pb ac = (Inl err, ac) \<and> kind err = InfrastructureError))"
  using assms
  by (auto simp: create_def put_and_return_def PutState_def split: sum.splits option.splits)

theorem create_conflict_or_new_asset_witness:
  "(\<exists>err. create example_codec
            (example_context (Some ''B'')
               (Some \<lparr>LockedToChannel = [], History = [Some \<lparr>Id_field = Some ''A''\<rparr>]\<rparr>)
               ''create'' None)
          = (Inl err,
             example_context (Some ''B'')
               (Some \<lparr>LockedToChannel = [], History = [Some \<lparr>Id_field = Some ''A''\<rparr>]\<rparr>)
               ''create'' None)
          \<and> kind err = Conflict)
   \<and> create example_codec (example_context (Some ''A'') None ''create'' None)
       = (Inr ''|A'',
          (example_context (Some ''A'') None ''create'' None)
            \<lparr>stub := example_stub [] (Some ''A'') [''assetA'' \<mapsto> ''|A'']\<rparr>)"
  using create_conflict_or_new_asset
          [of "example_context (Some ''B'')
                 (Some \<lparr>LockedToChannel = [], History = [Some \<lparr>Id_field = Some ''A''\<rparr>]\<rparr>)
                 ''create'' None" example_codec]
        create_conflict_or_new_asset
          [of "example_context (Some ''A'') None ''create'' None" example_codec]
  by (simp add: example_context_def example_stub_def example_codec_def)

section \<open>show\<close>

text \<open>
  C4. A \<open>show\<close> with a \<open>fromChannel\<close> argument on a key without an asset writes and
  returns, when the encoding and the ledger write succeed, the bytes of an unlocked asset
  whose history is the creator twice. The value of \<open>fromChannel\<close> does not occur in the
  result, and the stub after the call differs from the stub before it in the value
  stored under the key only: no other channel is read. The one other outcome is the
  error of the encoding or of the ledger, with nothing written.
\<close>

theorem show_without_local_asset:
  assumes "functionArg ac = Some fromChannel"
    and "asset ac = None"
  shows "(\<forall>toAssetBytes.
            Marshal pb \<lparr>LockedToChannel = [],
                         History = [Some \<lparr>Id_field = creator ac\<rparr>,
                                    Some \<lparr>Id_field = creator ac\<rparr>]\<rparr> = Inr toAssetBytes
            \<and> put_error (stub ac) (key ac) toAssetBytes = None \<longrightarrow>
            show_op pb ac =
              (Inr toAssetBytes,
               ac\<lparr>stub := (stub ac)\<lparr>state := (state (stub ac))(key ac \<mapsto> toAssetBytes)\<rparr>\<rparr>))
     \<and> ((\<exists>toAssetBytes.
            Marshal pb \<lparr>LockedToChannel = [],
                         History = [Some \<lparr>Id_field = creator ac\<rparr>,
                                    Some \<lparr>Id_field = creator ac\<rparr>]\<rparr> = Inr toAssetBytes
            \<and> show_op pb ac =
                (Inr toAssetBytes,
                 ac\<lparr>stub := (stub ac)\<lparr>state := (state (stub ac))(key ac \<mapsto> toAssetBytes)\<rparr>\<rparr>))
          \<or> (\<exists>err. show_op pb ac = (Inl err, ac) \<and> kind err = InfrastructureError))"
  using assms
  by (auto simp: show_op_def put_and_return_def PutState_def split: sum.splits option.splits)

theorem show_without_local_asset_witness:
  "show_op example_codec (example_context (Some ''A'') None ''show'' (Some ''channel1''))
     = (Inr ''|A|A'',
        (example_context (Some ''A'') None ''show'' (Some ''channel1''))
          \<lparr>stub := example_stub [] (Some ''A'') [''assetA'' \<mapsto> ''|A|A'']\<rparr>)"
  using show_without_local_asset
          [where ac = "example_context (Some ''A'') None ''show'' (Some ''channel1'')"
             and fromChannel = "''channel1''" and pb = example_codec]
  by (simp add: example_context_def example_stub_def example_codec_def)

text \<open>
  C5. A \<open>show\<close> with a \<open>fromChannel\<close> argument on a key that holds an asset fails with
  a Conflict when the asset is not locked, and fails with a Conflict when it is locked
  and its history has at least one entry, the length of the history \<open>show\<close> builds.
  So a \<open>show\<close> that returns bytes ran on a key without an asset, or on a locked asset
  with an empty history.
\<close>

theorem show_over_existing_asset:
  "(\<forall>a. functionArg ac \<noteq> None \<and> asset ac = Some a \<and> LockedToChannel a = [] \<longrightarrow>
        (\<exists>err. show_op pb ac = (Inl err, ac) \<and> kind err = Conflict))
   \<and> (\<forall>a. functionArg ac \<noteq> None \<and> asset ac = Some a \<and> LockedToChannel a \<noteq> []
          \<and> 1 \<le> length (History a) \<longrightarrow>
        (\<exists>err. show_op pb ac = (Inl err, ac) \<and> kind err = Conflict))
   \<and> (\<forall>b ac'. show_op pb ac = (Inr b, ac') \<longrightarrow>
        asset ac = None
        \<or> (\<exists>a. asset ac = Some a \<and> LockedToChannel a \<noteq> [] \<and> History a = []))"
  by (auto simp: show_op_def Let_def Suc_le_eq split: option.splits if_splits sum.splits)

theorem show_over_existing_asset_witness:
  "(\<exists>err. show_op example_codec
            (example_context (Some ''B'')
               (Some \<lparr>LockedToChannel = [], History = [Some \<lparr>Id_field = Some ''A''\<rparr>]\<rparr>)
               ''show'' (Some ''channel1''))
          = (Inl err,
             example_context (Some ''B'')
               (Some \<lparr>LockedToChannel = [], History = [Some \<lparr>Id_field = Some ''A''\<rparr>]\<rparr>)
               ''show'' (Some ''channel1''))
          \<and> kind err = Conflict)
   \<and> (\<exists>err. show_op example_codec
            (example_context (Some ''B'')
               (Some \<lparr>LockedToChannel = ''channel2'',
                      History = [Some \<lparr>Id_field = Some ''A''\<rparr>]\<rparr>)
               ''show'' (Some ''channel1''))
          = (Inl err,
             example_context (Some ''B'')
               (Some \<lparr>LockedToChannel = ''channel2'',
                      History = [Some \<lparr>Id_field = Some ''A''\<rparr>]\<rparr>)
               ''show'' (Some ''channel1''))
          \<and> kind err = Conflict)
   \<and> show_op example_codec
        (example_context (Some ''B'') (Some \<lparr>LockedToChannel = ''channel2'', History = []\<rparr>)
           ''show'' (Some ''channel1''))
       = (Inr ''|B|B'',
          (example_context (Some ''B'') (Some \<lparr>LockedToChannel = ''channel2'', History = []\<rparr>)
             ''show'' (Some ''channel1''))
            \<lparr>stub := example_stub [] (Some ''B'') [''assetA'' \<mapsto> ''|B|B'']\<rparr>)"
  using show_over_existing_asset
          [of "example_context (Some ''B'')
                 (Some \<lparr>LockedToChannel = [], History = [Some \<lparr>Id_field = Some ''A''\<rparr>]\<rparr>)
                 ''show'' (Some ''channel1'')" example_codec]
        show_over_existing_asset
          [of "example_context (Some ''B'')
                 (Some \<lparr>LockedToChannel = ''channel2'',
                        History = [Some \<lparr>Id_field = Some ''A''\<rparr>]\<rparr>)
                 ''show'' (Some ''channel1'')" example_codec]
        show_over_existing_asset
          [of "example_context (Some ''B'')
                 (Some \<lparr>LockedToChannel = ''channel2'', History = []\<rparr>)
                 ''show'' (Some ''channel1'')" example_codec]
  by (simp add: example_context_def example_stub_def example_codec_def show_op_def
        put_and_return_def PutState_def)

section \<open>lock\<close>

text \<open>
  C6. \<open>lock\<close> checks in this order: without \<open>toChannel\<close> argument it fails with
  BadRequest; without an asset at the key, with NotFound; on an asset whose
  \<open>LockedToChannel\<close> is not empty, with Conflict; when the history is empty, or its last
  entry is \<open>nil\<close> or holds an identity that is not byte-equal to the creator, with
  Unauthorized. Otherwise, when the encoding and the ledger write succeed, it stores and
  returns the bytes of the asset with \<open>LockedToChannel\<close> set to the argument, whatever
  the argument is, and with the history it had. The one other outcome is the error of
  the encoding or of the ledger, with nothing written.
\<close>

theorem lock_checks_then_locks:
  "(functionArg ac = None \<longrightarrow>
      (\<exists>err. lock pb ac = (Inl err, ac) \<and> kind err = BadRequest))
   \<and> (functionArg ac \<noteq> None \<and> asset ac = None \<longrightarrow>
      (\<exists>err. lock pb ac = (Inl err, ac) \<and> kind err = NotFound))
   \<and> (\<forall>a. functionArg ac \<noteq> None \<and> asset ac = Some a \<and> LockedToChannel a \<noteq> [] \<longrightarrow>
      (\<exists>err. lock pb ac = (Inl err, ac) \<and> kind err = Conflict))
   \<and> (\<forall>a. functionArg ac \<noteq> None \<and> asset ac = Some a \<and> LockedToChannel a = []
          \<and> \<not> (History a \<noteq> []
               \<and> (\<exists>w. last (History a) = Some w \<and> bytes_Equal (Id_field w) (creator ac))) \<longrightarrow>
      (\<exists>err. lock pb ac = (Inl err, ac) \<and> kind err = Unauthorized))
   \<and> (\<forall>a w toChannel assetBytes.
        functionArg ac = Some toChannel \<and> asset ac = Some a \<and> LockedToChannel a = []
          \<and> History a \<noteq> [] \<and> last (History a) = Some w
          \<and> bytes_Equal (Id_field w) (creator ac)
          \<and> Marshal pb (a\<lparr>LockedToChannel := toChannel\<rparr>) = Inr assetBytes
          \<and> put_error (stub ac) (key ac) assetBytes = None \<longrightarrow>
        lock pb ac =
          (Inr assetBytes,
           ac\<lparr>asset := Some (a\<lparr>LockedToChannel := toChannel\<rparr>),
              stub := (stub ac)\<lparr>state := (state (stub ac))(key ac \<mapsto> assetBytes)\<rparr>\<rparr>)
        \<and> LockedToChannel (a\<lparr>LockedToChannel := toChannel\<rparr>) = toChannel
        \<and> History (a\<lparr>LockedToChannel := toChannel\<rparr>) = History a)
   \<and> (\<forall>a w toChannel.
        functionArg ac = Some toChannel \<and> asset ac = Some a \<and> LockedToChannel a = []
          \<and> History a \<noteq> [] \<and> last (History a) = Some w
          \<and> bytes_Equal (Id_field w) (creator ac) \<longrightarrow>
        (\<exists>assetBytes.
           Marshal pb (a\<lparr>LockedToChannel := toChannel\<rparr>) = Inr assetBytes
           \<and> lock pb ac =
               (Inr assetBytes,
                ac\<lparr>asset := Some (a\<lparr>LockedToChannel := toChannel\<rparr>),
                   stub := (stub ac)\<lparr>state := (state (stub ac))(key ac \<mapsto> assetBytes)\<rparr>\<rparr>))
        \<or> (\<exists>err. lock pb ac = (Inl err, ac\<lparr>asset := Some (a\<lparr>LockedToChannel := toChannel\<rparr>)\<rparr>)
                 \<and> kind err = InfrastructureError))"
  by (auto simp: lock_def Let_def ownsAsset_iff put_and_return_def PutState_def
           split: sum.splits option.splits)

theorem lock_checks_then_locks_witness:
  "(\<exists>err. lock example_codec (example_context (Some ''A'') None ''lock'' None)
            = (Inl err, example_context (Some ''A'') None ''lock'' None)
          \<and> kind err = BadRequest)
   \<and> (\<exists>err. lock example_codec (example_context (Some ''A'') None ''lock'' (Some ''channel2''))
            = (Inl err, example_context (Some ''A'') None ''lock'' (Some ''channel2''))
          \<and> kind err = NotFound)
   \<and> (\<exists>err. lock example_codec
            (example_context (Some ''A'') (Some locked_asset_of_A) ''lock'' (Some ''channel3''))
            = (Inl err,
               example_context (Some ''A'') (Some locked_asset_of_A) ''lock'' (Some ''channel3''))
          \<and> kind err = Conflict)
   \<and> (\<exists>err. lock example_codec
            (example_context (Some ''B'') (Some asset_of_A) ''lock'' (Some ''channel2''))
            = (Inl err,
               example_context (Some ''B'') (Some asset_of_A) ''lock'' (Some ''channel2''))
          \<and> kind err = Unauthorized)
   \<and> lock example_codec
        (example_context (Some ''A'') (Some asset_of_A) ''lock'' (Some ''channel2''))
       = (Inr ''channel2|A'',
          (example_context (Some ''A'') (Some locked_asset_of_A) ''lock'' (Some ''channel2''))
            \<lparr>stub := example_stub [] (Some ''A'') [''assetA'' \<mapsto> ''channel2|A'']\<rparr>)"
proof (intro conjI)
  show "\<exists>err. lock example_codec (example_context (Some ''A'') None ''lock'' None)
            = (Inl err, example_context (Some ''A'') None ''lock'' None)
          \<and> kind err = BadRequest"
    using lock_checks_then_locks [of "example_context (Some ''A'') None ''lock'' None" example_codec]
    by (simp add: example_context_def)
  show "\<exists>err. lock example_codec (example_context (Some ''A'') None ''lock'' (Some ''channel2''))
            = (Inl err, example_context (Some ''A'') None ''lock'' (Some ''channel2''))
          \<and> kind err = NotFound"
    using lock_checks_then_locks
            [of "example_context (Some ''A'') None ''lock'' (Some ''channel2'')" example_codec]
    by (simp add: example_context_def)
  show "\<exists>err. lock example_codec
            (example_context (Some ''A'') (Some locked_asset_of_A) ''lock'' (Some ''channel3''))
            = (Inl err,
               example_context (Some ''A'') (Some locked_asset_of_A) ''lock'' (Some ''channel3''))
          \<and> kind err = Conflict"
    using lock_checks_then_locks
            [of "example_context (Some ''A'') (Some locked_asset_of_A) ''lock'' (Some ''channel3'')"
                example_codec]
    by (simp add: example_context_def locked_asset_of_A_def)
  show "\<exists>err. lock example_codec
            (example_context (Some ''B'') (Some asset_of_A) ''lock'' (Some ''channel2''))
            = (Inl err,
               example_context (Some ''B'') (Some asset_of_A) ''lock'' (Some ''channel2''))
          \<and> kind err = Unauthorized"
    using lock_checks_then_locks
            [of "example_context (Some ''B'') (Some asset_of_A) ''lock'' (Some ''channel2'')"
                example_codec]
    by (simp add: example_context_def asset_of_A_def bytes_Equal_def)
  show "lock example_codec
        (example_context (Some ''A'') (Some asset_of_A) ''lock'' (Some ''channel2''))
       = (Inr ''channel2|A'',
          (example_context (Some ''A'') (Some locked_asset_of_A) ''lock'' (Some ''channel2''))
            \<lparr>stub := example_stub [] (Some ''A'') [''assetA'' \<mapsto> ''channel2|A'']\<rparr>)"
    using lock_checks_then_locks
            [of "example_context (Some ''A'') (Some asset_of_A) ''lock'' (Some ''channel2'')"
                example_codec]
    by (simp add: example_defs bytes_Equal_def)
qed

section \<open>transfer\<close>

text \<open>
  C8. A \<open>transfer\<close> with a \<open>toOwnerId\<close> argument on an asset that is not locked fails
  with Unauthorized when the history is empty, or its last entry is \<open>nil\<close> or holds an
  identity that is not byte-equal to the creator. When the creator is the owner and the
  encoding and the ledger write succeed, it stores and returns the bytes of the asset
  whose history is the former history followed by the owner \<open>toOwnerId\<close>; the former
  history is a prefix of the new one. The one other outcome is the error of the encoding
  or of the ledger, with nothing written.
\<close>

theorem transfer_by_owner_appends:
  assumes "functionArg ac = Some toOwnerId"
    and "asset ac = Some a"
    and "LockedToChannel a = []"
  shows "(\<not> (History a \<noteq> []
            \<and> (\<exists>w. last (History a) = Some w \<and> bytes_Equal (Id_field w) (creator ac))) \<longrightarrow>
           (\<exists>err. transfer pb ac = (Inl err, ac) \<and> kind err = Unauthorized))
     \<and> (\<forall>w assetBytes.
           History a \<noteq> [] \<and> last (History a) = Some w
             \<and> bytes_Equal (Id_field w) (creator ac)
             \<and> Marshal pb (a\<lparr>History := History a @ [Some \<lparr>Id_field = Some toOwnerId\<rparr>]\<rparr>)
                 = Inr assetBytes
             \<and> put_error (stub ac) (key ac) assetBytes = None \<longrightarrow>
           transfer pb ac =
             (Inr assetBytes,
              ac\<lparr>asset := Some (a\<lparr>History := History a @ [Some \<lparr>Id_field = Some toOwnerId\<rparr>]\<rparr>),
                 stub := (stub ac)\<lparr>state := (state (stub ac))(key ac \<mapsto> assetBytes)\<rparr>\<rparr>)
           \<and> take (length (History a)) (History a @ [Some \<lparr>Id_field = Some toOwnerId\<rparr>])
               = History a)
     \<and> (\<forall>w. History a \<noteq> [] \<and> last (History a) = Some w
             \<and> bytes_Equal (Id_field w) (creator ac) \<longrightarrow>
           (\<exists>assetBytes.
              Marshal pb (a\<lparr>History := History a @ [Some \<lparr>Id_field = Some toOwnerId\<rparr>]\<rparr>)
                = Inr assetBytes
              \<and> transfer pb ac =
                  (Inr assetBytes,
                   ac\<lparr>asset :=
                        Some (a\<lparr>History := History a @ [Some \<lparr>Id_field = Some toOwnerId\<rparr>]\<rparr>),
                      stub := (stub ac)\<lparr>state := (state (stub ac))(key ac \<mapsto> assetBytes)\<rparr>\<rparr>))
           \<or> (\<exists>err. transfer pb ac =
                      (Inl err,
                       ac\<lparr>asset :=
                            Some (a\<lparr>History :=
                                      History a @ [Some \<lparr>Id_field = Some toOwnerId\<rparr>]\<rparr>)\<rparr>)
                    \<and> kind err = InfrastructureError))"
  using assms
  by (auto simp: transfer_def Let_def ownsAsset_iff put_and_return_def PutState_def
           split: sum.splits option.splits)

theorem transfer_by_owner_appends_witness:
  "(\<exists>err. transfer example_codec
            (example_context (Some ''B'') (Some asset_of_A) ''transfer'' (Some ''C''))
            = (Inl err,
               example_context (Some ''B'') (Some asset_of_A) ''transfer'' (Some ''C''))
          \<and> kind err = Unauthorized)
   \<and> transfer example_codec
        (example_context (Some ''A'') (Some asset_of_A) ''transfer'' (Some ''B''))
       = (Inr ''|A|B'',
          (example_context (Some ''A'')
             (Some \<lparr>LockedToChannel = [],
                    History = [Some \<lparr>Id_field = Some ''A''\<rparr>, Some \<lparr>Id_field = Some ''B''\<rparr>]\<rparr>)
             ''transfer'' (Some ''B''))
            \<lparr>stub := example_stub [] (Some ''A'') [''assetA'' \<mapsto> ''|A|B'']\<rparr>)"
proof (intro conjI)
  show "\<exists>err. transfer example_codec
            (example_context (Some ''B'') (Some asset_of_A) ''transfer'' (Some ''C''))
            = (Inl err,
               example_context (Some ''B'') (Some asset_of_A) ''transfer'' (Some ''C''))
          \<and> kind err = Unauthorized"
    using transfer_by_owner_appends
            [of "example_context (Some ''B'') (Some asset_of_A) ''transfer'' (Some ''C'')"
                "''C''" asset_of_A example_codec]
    by (simp add: example_context_def asset_of_A_def bytes_Equal_def)
  show "transfer example_codec
        (example_context (Some ''A'') (Some asset_of_A) ''transfer'' (Some ''B''))
       = (Inr ''|A|B'',
          (example_context (Some ''A'')
             (Some \<lparr>LockedToChannel = [],
                    History = [Some \<lparr>Id_field = Some ''A''\<rparr>, Some \<lparr>Id_field = Some ''B''\<rparr>]\<rparr>)
             ''transfer'' (Some ''B''))
            \<lparr>stub := example_stub [] (Some ''A'') [''assetA'' \<mapsto> ''|A|B'']\<rparr>)"
    using transfer_by_owner_appends
            [of "example_context (Some ''A'') (Some asset_of_A) ''transfer'' (Some ''B'')"
                "''B''" asset_of_A example_codec]
    by (simp add: example_defs bytes_Equal_def)
qed

section \<open>What an invocation writes\<close>

text \<open>
  Each handler either returns an error and leaves the stub as it was, or returns bytes;
  the handlers that write store the returned bytes under the key of the context, once.
  \<open>query\<close> returns the context it was given.
\<close>

lemma put_and_return_effect:
  "put_and_return ac b = (r, ac') \<Longrightarrow>
     (\<exists>err. r = Inl err \<and> ac' = ac)
     \<or> (r = Inr b \<and> ac' = ac\<lparr>stub := (stub ac)\<lparr>state := (state (stub ac))(key ac \<mapsto> b)\<rparr>\<rparr>)"
  by (auto simp: put_and_return_def PutState_def split: option.splits)

lemma create_effect:
  "create pb ac = (r, ac') \<Longrightarrow>
     (\<exists>err. r = Inl err \<and> stub ac' = stub ac)
     \<or> (\<exists>b. r = Inr b \<and> stub ac' = (stub ac)\<lparr>state := (state (stub ac))(key ac \<mapsto> b)\<rparr>)"
  by (auto simp: create_def split: if_splits sum.splits dest!: put_and_return_effect)

lemma lock_effect:
  "lock pb ac = (r, ac') \<Longrightarrow>
     (\<exists>err. r = Inl err \<and> stub ac' = stub ac)
     \<or> (\<exists>b. r = Inr b \<and> stub ac' = (stub ac)\<lparr>state := (state (stub ac))(key ac \<mapsto> b)\<rparr>)"
  by (auto simp: lock_def Let_def split: if_splits sum.splits option.splits
           dest!: put_and_return_effect)

lemma show_op_effect:
  "show_op pb ac = (r, ac') \<Longrightarrow>
     (\<exists>err. r = Inl err \<and> stub ac' = stub ac)
     \<or> (\<exists>b. r = Inr b \<and> stub ac' = (stub ac)\<lparr>state := (state (stub ac))(key ac \<mapsto> b)\<rparr>)"
  by (auto simp: show_op_def Let_def split: if_splits sum.splits option.splits
           dest!: put_and_return_effect)

lemma transfer_effect:
  "transfer pb ac = (r, ac') \<Longrightarrow>
     (\<exists>err. r = Inl err \<and> stub ac' = stub ac)
     \<or> (\<exists>b. r = Inr b \<and> stub ac' = (stub ac)\<lparr>state := (state (stub ac))(key ac \<mapsto> b)\<rparr>)"
  by (auto simp: transfer_def Let_def split: if_splits sum.splits option.splits
           dest!: put_and_return_effect)

lemma query_effect: "snd (query pb ac) = ac"
  by (simp add: query_def split: sum.splits option.splits)

lemma newAssetContext_stub: "newAssetContext pb s = Inr ac \<Longrightarrow> stub ac = s"
  by (auto simp: newAssetContext_def split: prod.splits option.splits sum.splits)

lemma respond_effect:
  assumes "(\<exists>err. fst h = Inl err \<and> stub (snd h) = s)
           \<or> (\<exists>b. fst h = Inr b \<and> (stub (snd h) = s \<or> stub (snd h) = upd b))"
  shows "(\<exists>msg. fst (respond h) = shim_Error msg \<and> snd (respond h) = s)
         \<or> (\<exists>b. fst (respond h) = shim_Success (Some b)
                \<and> (snd (respond h) = s \<or> snd (respond h) = upd b))"
  using assms by (cases h) (auto simp: respond_def)

lemma execute_effect:
  "(\<exists>msg. fst (execute pb ac) = shim_Error msg \<and> snd (execute pb ac) = stub ac)
   \<or> (\<exists>b. fst (execute pb ac) = shim_Success (Some b)
          \<and> (snd (execute pb ac) = stub ac
              \<or> snd (execute pb ac) = (stub ac)\<lparr>state := (state (stub ac))(key ac \<mapsto> b)\<rparr>))"
proof -
  let ?upd = "\<lambda>b. (stub ac)\<lparr>state := (state (stub ac))(key ac \<mapsto> b)\<rparr>"
  let ?ok = "\<lambda>x. (\<exists>msg. fst x = shim_Error msg \<and> snd x = stub ac)
                \<or> (\<exists>b. fst x = shim_Success (Some b) \<and> (snd x = stub ac \<or> snd x = ?upd b))"
  have c: "?ok (respond (create pb ac))"
    using create_effect [of pb ac "fst (create pb ac)" "snd (create pb ac)"]
    by (intro respond_effect) auto
  have l: "?ok (respond (lock pb ac))"
    using lock_effect [of pb ac "fst (lock pb ac)" "snd (lock pb ac)"]
    by (intro respond_effect) auto
  have s: "?ok (respond (show_op pb ac))"
    using show_op_effect [of pb ac "fst (show_op pb ac)" "snd (show_op pb ac)"]
    by (intro respond_effect) auto
  have t: "?ok (respond (transfer pb ac))"
    using transfer_effect [of pb ac "fst (transfer pb ac)" "snd (transfer pb ac)"]
    by (intro respond_effect) auto
  have q: "?ok (respond (query pb ac))"
    by (intro respond_effect) (cases "fst (query pb ac)"; simp add: query_effect)
  show ?thesis
    unfolding execute_def using c l s t q by simp
qed

lemma Invoke_effect:
  "(\<exists>msg. fst (Invoke pb s) = shim_Error msg \<and> snd (Invoke pb s) = s)
   \<or> (\<exists>b. fst (Invoke pb s) = shim_Success (Some b)
          \<and> (snd (Invoke pb s) = s
              \<or> (\<exists>k. snd (Invoke pb s) = s\<lparr>state := (state s)(k \<mapsto> b)\<rparr>)))"
proof (cases "newAssetContext pb s")
  case (Inl err)
  then show ?thesis by (simp add: Invoke_def)
next
  case (Inr ac)
  then have "Invoke pb s = execute pb ac" by (simp add: Invoke_def)
  with execute_effect [of pb ac] newAssetContext_stub [OF Inr] show ?thesis by auto
qed

lemmas Invoke_defs =
  Invoke_def newAssetContext_def GetArgs_def GetCreator_def GetState_def execute_def
  respond_def put_and_return_def PutState_def

text \<open>
  C9. When a handler returns an error, the stub after the call is the stub before it,
  and when \<open>Invoke\<close> answers with \<open>shim.Error\<close>, the stub, and with it the value stored
  under the asset key, is unchanged. An invocation changes the ledger at most by one
  write of the bytes it returns. The error after a refused \<open>PutState\<close> is covered: the
  ledger has then written nothing.
\<close>

theorem failure_writes_nothing:
  "(\<forall>err ac'. create pb ac = (Inl err, ac') \<longrightarrow> stub ac' = stub ac)
   \<and> (\<forall>err ac'. lock pb ac = (Inl err, ac') \<longrightarrow> stub ac' = stub ac)
   \<and> (\<forall>err ac'. show_op pb ac = (Inl err, ac') \<longrightarrow> stub ac' = stub ac)
   \<and> (\<forall>err ac'. transfer pb ac = (Inl err, ac') \<longrightarrow> stub ac' = stub ac)
   \<and> (\<forall>err ac'. query pb ac = (Inl err, ac') \<longrightarrow> stub ac' = stub ac)
   \<and> (\<forall>msg s'. Invoke pb s = (shim_Error msg, s') \<longrightarrow> s' = s)
   \<and> (\<forall>resp s'. Invoke pb s = (resp, s') \<longrightarrow>
         s' = s \<or> (\<exists>k b. resp = shim_Success (Some b) \<and> s' = s\<lparr>state := (state s)(k \<mapsto> b)\<rparr>))"
proof (intro conjI allI impI)
  fix err ac'
  show "stub ac' = stub ac" if "create pb ac = (Inl err, ac')"
    using create_effect [OF that] by simp
  show "stub ac' = stub ac" if "lock pb ac = (Inl err, ac')"
    using lock_effect [OF that] by simp
  show "stub ac' = stub ac" if "show_op pb ac = (Inl err, ac')"
    using show_op_effect [OF that] by simp
  show "stub ac' = stub ac" if "transfer pb ac = (Inl err, ac')"
    using transfer_effect [OF that] by simp
  show "stub ac' = stub ac" if "query pb ac = (Inl err, ac')"
    using query_effect [of pb ac] that by simp
next
  fix msg s'
  show "s' = s" if "Invoke pb s = (shim_Error msg, s')"
    using Invoke_effect [of pb s] that by simp
next
  fix resp s'
  show "s' = s \<or> (\<exists>k b. resp = shim_Success (Some b) \<and> s' = s\<lparr>state := (state s)(k \<mapsto> b)\<rparr>)"
    if "Invoke pb s = (resp, s')"
    using Invoke_effect [of pb s] that by auto
qed

theorem failure_writes_nothing_witness:
  "(\<exists>err. fst (lock example_codec
                 (example_context (Some ''B'') (Some asset_of_A) ''lock'' (Some ''channel2'')))
          = Inl err)
   \<and> stub (snd (lock example_codec
                  (example_context (Some ''B'') (Some asset_of_A) ''lock'' (Some ''channel2''))))
       = example_stub [] (Some ''B'') Map.empty
   \<and> Invoke example_codec
       (example_stub [Some ''transfer'', Some ''assetA'', Some ''B''] (Some ''A'')
          [''assetA'' \<mapsto> ''channel2|A''])
     = (shim_Error ''Cannot transfer an asset which has been locked to another channel'',
        example_stub [Some ''transfer'', Some ''assetA'', Some ''B''] (Some ''A'')
          [''assetA'' \<mapsto> ''channel2|A''])"
proof -
  let ?ac = "example_context (Some ''B'') (Some asset_of_A) ''lock'' (Some ''channel2'')"
  let ?s = "example_stub [Some ''transfer'', Some ''assetA'', Some ''B''] (Some ''A'')
              [''assetA'' \<mapsto> ''channel2|A'']"
  note unchanged = failure_writes_nothing [of example_codec ?ac ?s]
  have l: "fst (lock example_codec ?ac) = Inl (LockNotAuthorized ''assetA'')"
    by (simp add: lock_def ownsAsset_def bytes_Equal_def example_context_def asset_of_A_def)
  then have "stub (snd (lock example_codec ?ac)) = stub ?ac"
    using unchanged by (metis prod.collapse)
  then have ls: "stub (snd (lock example_codec ?ac)) = example_stub [] (Some ''B'') Map.empty"
    by (simp add: example_context_def)
  have "fst (Invoke example_codec ?s)
        = shim_Error ''Cannot transfer an asset which has been locked to another channel''"
    by (simp add: Invoke_defs transfer_def example_stub_def example_codec_def)
  then have "Invoke example_codec ?s
        = (shim_Error ''Cannot transfer an asset which has been locked to another channel'', ?s)"
    using unchanged by (metis prod.collapse)
  with l ls show ?thesis by simp
qed

section \<open>show and its argument\<close>

text \<open>The result of \<open>show\<close> is determined by the creator, the loaded asset, the key and the ledger.\<close>

lemma respond_parts:
  "fst (respond h) = (case fst h of Inl err \<Rightarrow> shim_Error (Error_text err)
                                   | Inr b \<Rightarrow> shim_Success (Some b))"
  "snd (respond h) = stub (snd h)"
  by (cases h; simp add: respond_def split: sum.splits)+

lemma show_op_depends_on:
  assumes "functionArg ac \<noteq> None" and "functionArg ac' \<noteq> None"
    and "creator ac' = creator ac" and "asset ac' = asset ac" and "key ac' = key ac"
    and "state (stub ac') = state (stub ac)" and "put_error (stub ac') = put_error (stub ac)"
  shows "fst (show_op pb ac') = fst (show_op pb ac)
         \<and> state (stub (snd (show_op pb ac'))) = state (stub (snd (show_op pb ac)))"
  using assms
  by (simp add: show_op_def Let_def put_and_return_def PutState_def
           split: option.splits sum.splits)

text \<open>
  C10. Two \<open>show\<close> invocations on the same stub with the same key, whose \<open>fromChannel\<close>
  arguments are both present and may differ, give the same response (the same success
  or failure, with the same payload or message) and leave the same ledger state.
\<close>

theorem show_ignores_fromChannel:
  "fst (Invoke pb (s\<lparr>args := [Some ''show'', k, Some fromChannel]\<rparr>))
     = fst (Invoke pb (s\<lparr>args := [Some ''show'', k, Some fromChannel']\<rparr>))
   \<and> state (snd (Invoke pb (s\<lparr>args := [Some ''show'', k, Some fromChannel]\<rparr>)))
     = state (snd (Invoke pb (s\<lparr>args := [Some ''show'', k, Some fromChannel']\<rparr>)))"
proof -
  let ?s = "\<lambda>f. s\<lparr>args := [Some ''show'', k, Some f]\<rparr>"
  show ?thesis
  proof (cases "newAssetContext pb (?s fromChannel)")
    case (Inl err)
    then have "newAssetContext pb (?s fromChannel') = Inl err"
      by (auto simp: newAssetContext_def GetArgs_def GetCreator_def GetState_def
               split: sum.splits option.splits)
    with Inl show ?thesis by (simp add: Invoke_def)
  next
    case (Inr ac)
    then have ac': "newAssetContext pb (?s fromChannel')
                      = Inr (ac\<lparr>stub := ?s fromChannel', functionArg := Some fromChannel'\<rparr>)"
      and fn: "function_name ac = ''show''" and arg: "functionArg ac = Some fromChannel"
      and st: "stub ac = ?s fromChannel"
      by (auto simp: newAssetContext_def GetArgs_def GetCreator_def GetState_def
               split: sum.splits option.splits)
    let ?ac' = "ac\<lparr>stub := ?s fromChannel', functionArg := Some fromChannel'\<rparr>"
    have "fst (show_op pb ?ac') = fst (show_op pb ac)
          \<and> state (stub (snd (show_op pb ?ac'))) = state (stub (snd (show_op pb ac)))"
      by (rule show_op_depends_on) (simp_all add: arg st)
    then show ?thesis
      using Inr ac' fn
      by (simp add: Invoke_def execute_def respond_parts)
  qed
qed

theorem show_ignores_fromChannel_witness:
  "fst (Invoke example_codec
          (example_stub [Some ''show'', Some ''assetA'', Some ''channel1''] (Some ''A'') Map.empty))
     = shim_Success (Some ''|A|A'')
   \<and> fst (Invoke example_codec
          (example_stub [Some ''show'', Some ''assetA'', Some ''channel7''] (Some ''A'') Map.empty))
     = shim_Success (Some ''|A|A'')"
proof -
  have "fst (Invoke example_codec
          (example_stub [Some ''show'', Some ''assetA'', Some ''channel1''] (Some ''A'') Map.empty))
     = shim_Success (Some ''|A|A'')"
    by (simp add: Invoke_defs show_op_def example_stub_def example_codec_def)
  then show ?thesis
    using show_ignores_fromChannel
            [where pb = example_codec and s = "example_stub [] (Some ''A'') Map.empty"
               and k = "Some ''assetA''" and fromChannel = "''channel1''"
               and fromChannel' = "''channel7''"]
    by (simp add: example_stub_def)
qed

section \<open>query\<close>

text \<open>
  \<open>query\<close> tests its argument the other way round from \<open>create\<close>: it rejects the call
  without a third argument, with the message of the third-argument case, and serves the
  call with one.
\<close>

lemma query_without_argument:
  "functionArg ac = None \<Longrightarrow> query pb ac = (Inl QueryTooManyArgs, ac)"
  by (simp add: query_def)

lemma query_with_argument:
  "functionArg ac = Some extra \<Longrightarrow> asset ac = Some a \<Longrightarrow> Marshal pb a = Inr b \<Longrightarrow>
   query pb ac = (Inr b, ac)"
  by (simp add: query_def)

text \<open>
  C1. On a ledger that holds the locked asset of \<open>A\<close> under \<open>assetA\<close>, the invocation
  \<open>["query", "assetA"]\<close> is answered with the error "Too many args to 'query'", and the
  invocation \<open>["query", "assetA", "extra"]\<close> with the bytes of the asset. The ledger is
  unchanged in both.
\<close>

theorem query_argument_test_inverted:
  "Invoke example_codec
     (example_stub [Some ''query'', Some ''assetA''] (Some ''B'')
        [''assetA'' \<mapsto> ''channel2|A''])
   = (shim_Error (''Too many args to '' @ [CHR 0x27] @ ''query'' @ [CHR 0x27]),
      example_stub [Some ''query'', Some ''assetA''] (Some ''B'')
        [''assetA'' \<mapsto> ''channel2|A''])
   \<and> Invoke example_codec
       (example_stub [Some ''query'', Some ''assetA'', Some ''extra''] (Some ''B'')
          [''assetA'' \<mapsto> ''channel2|A''])
     = (shim_Success (Some ''channel2|A''),
        example_stub [Some ''query'', Some ''assetA'', Some ''extra''] (Some ''B'')
          [''assetA'' \<mapsto> ''channel2|A''])"
  by (simp add: Invoke_defs query_def example_stub_def example_codec_def)

section \<open>A locked asset\<close>

text \<open>
  Every asset a handler writes has a history that is not empty, and on a locked asset
  with such a history every handler fails before it writes.
\<close>

lemma create_writes_history:
  "create pb ac = (Inr b, ac') \<Longrightarrow> \<exists>a'. Marshal pb a' = Inr b \<and> History a' \<noteq> []"
  by (auto simp: create_def split: if_splits sum.splits dest!: put_and_return_effect)

lemma lock_writes_history:
  "lock pb ac = (Inr b, ac') \<Longrightarrow> \<exists>a'. Marshal pb a' = Inr b \<and> History a' \<noteq> []"
  by (auto simp: lock_def Let_def ownsAsset_iff split: if_splits sum.splits option.splits
           dest!: put_and_return_effect)

lemma show_op_writes_history:
  "show_op pb ac = (Inr b, ac') \<Longrightarrow> \<exists>a'. Marshal pb a' = Inr b \<and> History a' \<noteq> []"
  by (auto simp: show_op_def Let_def split: if_splits sum.splits option.splits
           dest!: put_and_return_effect)

lemma transfer_writes_history:
  "transfer pb ac = (Inr b, ac') \<Longrightarrow> \<exists>a'. Marshal pb a' = Inr b \<and> History a' \<noteq> []"
  by (auto simp: transfer_def Let_def split: if_splits sum.splits option.splits
           dest!: put_and_return_effect)

lemma newAssetContext_asset:
  "newAssetContext pb s = Inr ac \<Longrightarrow>
     (case state s (key ac) of
        None \<Rightarrow> asset ac = None
      | Some b \<Rightarrow> (\<exists>a. Unmarshal pb b = Inr a \<and> asset ac = Some a))"
  by (auto simp: newAssetContext_def GetState_def split: prod.splits option.splits sum.splits)

lemma locked_handlers_fail:
  assumes "asset ac = Some a" and "LockedToChannel a \<noteq> []"
  shows "(\<exists>err. create pb ac = (Inl err, ac))"
    and "(\<exists>err. lock pb ac = (Inl err, ac) \<and> (functionArg ac \<noteq> None \<longrightarrow> kind err = Conflict))"
    and "(\<exists>err. transfer pb ac = (Inl err, ac)
                \<and> (functionArg ac \<noteq> None \<longrightarrow> kind err = Conflict))"
    and "History a \<noteq> [] \<Longrightarrow> (\<exists>err. show_op pb ac = (Inl err, ac))"
  using assms
  by (auto simp: create_def lock_def transfer_def show_op_def Let_def Suc_le_eq)

lemma locked_execute_fails:
  assumes "asset ac = Some a" and "LockedToChannel a \<noteq> []" and "History a \<noteq> []"
  shows "snd (execute pb ac) = stub ac"
proof -
  have "snd (respond (create pb ac)) = stub ac" "snd (respond (lock pb ac)) = stub ac"
    "snd (respond (transfer pb ac)) = stub ac" "snd (respond (show_op pb ac)) = stub ac"
    using locked_handlers_fail [OF assms(1,2), of pb] assms(3)
    by (auto simp: respond_parts)
  moreover have "snd (respond (query pb ac)) = stub ac"
    by (simp add: respond_parts query_effect)
  ultimately show ?thesis by (simp add: execute_def)
qed

lemma Invoke_other_key:
  "newAssetContext pb s = Inr ac \<Longrightarrow> k \<noteq> key ac \<Longrightarrow> state (snd (Invoke pb s)) k = state s k"
  using execute_effect [of pb ac] newAssetContext_stub [of pb s ac]
  by (auto simp: Invoke_def)


lemma locked_Invoke_keeps:
  assumes "LockedToChannel a \<noteq> []" and "History a \<noteq> []"
    and "state s k = Some b" and "Unmarshal pb b = Inr a"
  shows "state (snd (Invoke pb s)) k = Some b"
proof (cases "newAssetContext pb s")
  case (Inl err)
  with assms show ?thesis by (simp add: Invoke_def)
next
  case (Inr ac')
  show ?thesis
  proof (cases "k = key ac'")
    case True
    with newAssetContext_asset [OF Inr] assms have "asset ac' = Some a" by simp
    from locked_execute_fails [OF this assms(1,2), of pb] assms(3) newAssetContext_stub [OF Inr] Inr
    show ?thesis by (simp add: Invoke_def)
  next
    case False
    from Invoke_other_key [OF Inr False] assms(3) show ?thesis by simp
  qed
qed

lemma locked_invocations_keep:
  assumes "LockedToChannel a \<noteq> []" and "History a \<noteq> []" and "Unmarshal pb b = Inr a"
  shows "state s k = Some b \<Longrightarrow> state (invocations pb txs s) k = Some b"
proof (induction txs arbitrary: s)
  case Nil
  then show ?case by simp
next
  case (Cons tx txs)
  obtain as c where tx: "tx = (as, c)" by (cases tx)
  have "state (snd (Invoke pb (s\<lparr>args := as, creator_result := c\<rparr>))) k = Some b"
    using Cons.prems by (intro locked_Invoke_keeps [OF assms(1,2) _ assms(3)]) simp
  then show ?case using tx by (simp add: Cons.IH)
qed

text \<open>
  A ledger that only the chaincode has written stays one under every invocation, and an
  invocation leaves the answers of the ledger to \<open>GetState\<close> as they were.
\<close>

lemma handler_write:
  assumes eff: "(\<exists>err. fst h = Inl err \<and> stub (snd h) = s)
                \<or> (\<exists>b. fst h = Inr b \<and> stub (snd h) = s\<lparr>state := (state s)(k \<mapsto> b)\<rparr>)"
    and wr: "\<And>b. fst h = Inr b \<Longrightarrow> \<exists>a'. Marshal pb a' = Inr b \<and> History a' \<noteq> []"
  shows "snd (respond h) = s
         \<or> (\<exists>b a'. snd (respond h) = s\<lparr>state := (state s)(k \<mapsto> b)\<rparr>
                   \<and> Marshal pb a' = Inr b \<and> History a' \<noteq> [])"
  using eff wr by (auto simp: respond_parts)

lemma execute_write:
  "snd (execute pb ac) = stub ac
   \<or> (\<exists>b a'. snd (execute pb ac) = (stub ac)\<lparr>state := (state (stub ac))(key ac \<mapsto> b)\<rparr>
             \<and> Marshal pb a' = Inr b \<and> History a' \<noteq> [])"
proof -
  let ?ok = "\<lambda>x. x = stub ac
                \<or> (\<exists>b a'. x = (stub ac)\<lparr>state := (state (stub ac))(key ac \<mapsto> b)\<rparr>
                          \<and> Marshal pb a' = Inr b \<and> History a' \<noteq> [])"
  have c: "?ok (snd (respond (create pb ac)))"
    using create_effect [of pb ac "fst (create pb ac)" "snd (create pb ac)"]
      create_writes_history [of pb ac _ "snd (create pb ac)"]
    by (intro handler_write) (auto simp: prod_eq_iff)
  have l: "?ok (snd (respond (lock pb ac)))"
    using lock_effect [of pb ac "fst (lock pb ac)" "snd (lock pb ac)"]
      lock_writes_history [of pb ac _ "snd (lock pb ac)"]
    by (intro handler_write) (auto simp: prod_eq_iff)
  have s: "?ok (snd (respond (show_op pb ac)))"
    using show_op_effect [of pb ac "fst (show_op pb ac)" "snd (show_op pb ac)"]
      show_op_writes_history [of pb ac _ "snd (show_op pb ac)"]
    by (intro handler_write) (auto simp: prod_eq_iff)
  have t: "?ok (snd (respond (transfer pb ac)))"
    using transfer_effect [of pb ac "fst (transfer pb ac)" "snd (transfer pb ac)"]
      transfer_writes_history [of pb ac _ "snd (transfer pb ac)"]
    by (intro handler_write) (auto simp: prod_eq_iff)
  have q: "?ok (snd (respond (query pb ac)))"
    by (simp add: respond_parts query_effect)
  show ?thesis
    unfolding execute_def using c l s t q by simp
qed

lemma Invoke_keeps_written:
  assumes "written_by_chaincode pb s"
  shows "written_by_chaincode pb (snd (Invoke pb s))"
proof (cases "newAssetContext pb s")
  case (Inl err)
  with assms show ?thesis by (simp add: Invoke_def)
next
  case (Inr ac)
  then have "Invoke pb s = execute pb ac" by (simp add: Invoke_def)
  with execute_write [of pb ac] newAssetContext_stub [OF Inr] assms
  show ?thesis by (auto simp: written_by_chaincode_def split: if_splits)
qed

lemma invocations_keep_written:
  "written_by_chaincode pb s \<Longrightarrow> written_by_chaincode pb (invocations pb txs s)"
proof (induction txs arbitrary: s)
  case Nil
  then show ?case by simp
next
  case (Cons tx txs)
  obtain as c where tx: "tx = (as, c)" by (cases tx)
  from Cons.prems have "written_by_chaincode pb (s\<lparr>args := as, creator_result := c\<rparr>)"
    by (simp add: written_by_chaincode_def)
  then have "written_by_chaincode pb (snd (Invoke pb (s\<lparr>args := as, creator_result := c\<rparr>)))"
    by (rule Invoke_keeps_written)
  then show ?case using tx by (simp add: Cons.IH)
qed

lemma empty_ledger_written: "state s = Map.empty \<Longrightarrow> written_by_chaincode pb s"
  by (simp add: written_by_chaincode_def)

lemma Invoke_keeps_get_error: "get_error (snd (Invoke pb s)) = get_error s"
  using Invoke_effect [of pb s] by auto

lemma invocations_keep_get_error: "get_error (invocations pb txs s) = get_error s"
proof (induction txs arbitrary: s)
  case Nil
  then show ?case by simp
next
  case (Cons tx txs)
  obtain as c where tx: "tx = (as, c)" by (cases tx)
  show ?case using tx by (simp add: Cons.IH Invoke_keeps_get_error)
qed

lemma newAssetContext_fields:
  "newAssetContext pb s = Inr ac \<Longrightarrow> args s = [f, kk, x] \<Longrightarrow>
   function_name ac = string_of f \<and> key ac = string_of kk \<and> functionArg ac = x"
  by (auto simp: newAssetContext_def GetArgs_def split: sum.splits option.splits)

lemma newAssetContext_loaded:
  "args s = [f, kk, x] \<Longrightarrow> creator_result s = Inr c \<Longrightarrow> get_error s (string_of kk) = None \<Longrightarrow>
   state s (string_of kk) = Some b \<Longrightarrow> Unmarshal pb b = Inr a \<Longrightarrow>
   newAssetContext pb s =
     Inr \<lparr>stub = s, creator = c, asset = Some a, function_name = string_of f,
          key = string_of kk, functionArg = x\<rparr>"
  by (simp add: newAssetContext_def GetArgs_def GetCreator_def GetState_def)

lemma locked_lock_refused:
  assumes "state s k = Some b" and "Unmarshal pb b = Inr a" and "LockedToChannel a \<noteq> []"
    and "args s = [Some ''lock'', Some k, x]"
  shows "\<exists>msg. fst (Invoke pb s) = shim_Error msg"
    and "x \<noteq> None \<Longrightarrow> creator_result s = Inr c \<Longrightarrow> get_error s k = None \<Longrightarrow>
         fst (Invoke pb s) = shim_Error (Error_text (AlreadyLocked k (LockedToChannel a)))"
proof -
  show "\<exists>msg. fst (Invoke pb s) = shim_Error msg"
  proof (cases "newAssetContext pb s")
    case (Inl err)
    then show ?thesis by (simp add: Invoke_def)
  next
    case (Inr ac)
    from newAssetContext_fields [OF Inr assms(4)]
    have fn: "function_name ac = ''lock''" and k: "key ac = k" by simp_all
    from newAssetContext_asset [OF Inr] k assms(1,2) have "asset ac = Some a" by simp
    from locked_handlers_fail(2) [OF this assms(3), of pb]
    show ?thesis using Inr fn by (auto simp: Invoke_def execute_def respond_parts)
  qed
  show "fst (Invoke pb s) = shim_Error (Error_text (AlreadyLocked k (LockedToChannel a)))"
    if "x \<noteq> None" and "creator_result s = Inr c" and "get_error s k = None"
    using newAssetContext_loaded [OF assms(4) that(2), of b pb a] that assms(1,2,3)
    by (simp add: Invoke_def execute_def respond_parts lock_def)
qed

lemma locked_transfer_refused:
  assumes "state s k = Some b" and "Unmarshal pb b = Inr a" and "LockedToChannel a \<noteq> []"
    and "args s = [Some ''transfer'', Some k, x]"
  shows "\<exists>msg. fst (Invoke pb s) = shim_Error msg"
    and "x \<noteq> None \<Longrightarrow> creator_result s = Inr c \<Longrightarrow> get_error s k = None \<Longrightarrow>
         fst (Invoke pb s) = shim_Error (Error_text TransferLocked)"
proof -
  show "\<exists>msg. fst (Invoke pb s) = shim_Error msg"
  proof (cases "newAssetContext pb s")
    case (Inl err)
    then show ?thesis by (simp add: Invoke_def)
  next
    case (Inr ac)
    from newAssetContext_fields [OF Inr assms(4)]
    have fn: "function_name ac = ''transfer''" and k: "key ac = k" by simp_all
    from newAssetContext_asset [OF Inr] k assms(1,2) have "asset ac = Some a" by simp
    from locked_handlers_fail(3) [OF this assms(3), of pb]
    show ?thesis using Inr fn by (auto simp: Invoke_def execute_def respond_parts)
  qed
  show "fst (Invoke pb s) = shim_Error (Error_text TransferLocked)"
    if "x \<noteq> None" and "creator_result s = Inr c" and "get_error s k = None"
    using newAssetContext_loaded [OF assms(4) that(2), of b pb a] that assms(1,2,3)
    by (simp add: Invoke_def execute_def respond_parts transfer_def)
qed

text \<open>The encoding of the examples keeps the history.\<close>

lemma roundtrip_keeps_history:
  "(\<forall>a b. Marshal pb a = Inr b \<longrightarrow> Unmarshal pb b = Inr a) \<Longrightarrow> keeps_history pb"
  by (auto simp: keeps_history_def)

lemma fields_not_Nil: "fields b \<noteq> []"
  by (induction b) (auto split: list.splits)

lemma fields_separator: "2 \<le> length (fields (xs @ CHR ''|'' # ys))"
proof (induction xs)
  case Nil
  have "fields ys \<noteq> []" by (rule fields_not_Nil)
  then show ?case by (cases "fields ys") simp_all
next
  case (Cons x xs)
  then show ?case by (auto split: list.splits)
qed

lemma example_history_separator:
  "example_history h = Some e \<Longrightarrow> h \<noteq> [] \<Longrightarrow> \<exists>r. e = CHR ''|'' # r"
  by (induction h rule: example_history.induct) auto

lemma example_codec_keeps_history: "keeps_history example_codec"
  unfolding keeps_history_def
proof (intro allI impI)
  fix a b a'
  assume m: "Marshal example_codec a = Inr b" and u: "Unmarshal example_codec b = Inr a'"
    and h: "History a \<noteq> []"
  from m obtain e where e: "example_history (History a) = Some e" and b: "b = LockedToChannel a @ e"
    by (auto simp: example_codec_def split: option.splits)
  from example_history_separator [OF e h] obtain r where "e = CHR ''|'' # r" ..
  with b fields_separator [of "LockedToChannel a" r] have "2 \<le> length (fields b)" by simp
  with u show "History a' \<noteq> []"
    by (auto simp: example_codec_def split: list.splits)
qed

text \<open>
  C7. On a ledger reached from the empty one by invocations of the chaincode, take a key
  that holds an asset whose \<open>LockedToChannel\<close> is not empty. After any further sequence
  of invocations, of any operation, with any arguments and by any creator, the key still
  holds the same bytes: no operation clears the lock. Every \<open>lock\<close> and every
  \<open>transfer\<close> invocation against that key then fails, whatever its argument and whoever
  the creator, and \<open>lock(k, toChannel)\<close> and \<open>transfer(k, toOwnerId)\<close> fail with the
  Conflict about the existing lock once the ledger has answered \<open>GetState\<close>.
\<close>

theorem locked_asset_stays_frozen:
  assumes "keeps_history pb"
    and "state s0 = Map.empty"
    and "state (invocations pb txs s0) k = Some b"
    and "Unmarshal pb b = Inr a"
    and "LockedToChannel a \<noteq> []"
  shows "state (invocations pb txs' (invocations pb txs s0)) k = Some b
     \<and> (\<exists>msg. fst (Invoke pb ((invocations pb txs' (invocations pb txs s0))
                               \<lparr>args := [Some ''lock'', Some k, x], creator_result := cr\<rparr>))
               = shim_Error msg)
     \<and> (\<exists>msg. fst (Invoke pb ((invocations pb txs' (invocations pb txs s0))
                               \<lparr>args := [Some ''transfer'', Some k, x], creator_result := cr\<rparr>))
               = shim_Error msg)
     \<and> (get_error s0 k = None \<longrightarrow>
          fst (Invoke pb ((invocations pb txs' (invocations pb txs s0))
                           \<lparr>args := [Some ''lock'', Some k, Some toChannel],
                             creator_result := Inr c\<rparr>))
            = shim_Error (Error_text (AlreadyLocked k (LockedToChannel a)))
          \<and> kind (AlreadyLocked k (LockedToChannel a)) = Conflict)
     \<and> (get_error s0 k = None \<longrightarrow>
          fst (Invoke pb ((invocations pb txs' (invocations pb txs s0))
                           \<lparr>args := [Some ''transfer'', Some k, Some toOwnerId],
                             creator_result := Inr c\<rparr>))
            = shim_Error (Error_text TransferLocked)
          \<and> kind TransferLocked = Conflict)"
proof -
  let ?s = "invocations pb txs' (invocations pb txs s0)"
  have "written_by_chaincode pb (invocations pb txs s0)"
    using assms(2) by (intro invocations_keep_written empty_ledger_written)
  with assms(3) obtain a0 where "Marshal pb a0 = Inr b" and "History a0 \<noteq> []"
    by (auto simp: written_by_chaincode_def)
  with assms(1,4) have hist: "History a \<noteq> []"
    by (auto simp: keeps_history_def)
  have kept: "state ?s k = Some b"
    using assms(3) by (rule locked_invocations_keep [OF assms(5) hist assms(4)])
  have get: "get_error ?s = get_error s0"
    by (simp add: invocations_keep_get_error)
  have st: "state (?s\<lparr>args := as, creator_result := r\<rparr>) k = Some b" for as r
    using kept by simp
  note l = locked_lock_refused [OF st assms(4,5)]
  note t = locked_transfer_refused [OF st assms(4,5)]
  show ?thesis
  proof (intro conjI impI)
    show "state ?s k = Some b" by (rule kept)
    show "\<exists>msg. fst (Invoke pb (?s\<lparr>args := [Some ''lock'', Some k, x], creator_result := cr\<rparr>))
                 = shim_Error msg"
      by (rule l(1)) simp
    show "\<exists>msg. fst (Invoke pb (?s\<lparr>args := [Some ''transfer'', Some k, x], creator_result := cr\<rparr>))
                 = shim_Error msg"
      by (rule t(1)) simp
    show "fst (Invoke pb (?s\<lparr>args := [Some ''lock'', Some k, Some toChannel],
                            creator_result := Inr c\<rparr>))
            = shim_Error (Error_text (AlreadyLocked k (LockedToChannel a)))"
      if "get_error s0 k = None"
      using that get by (intro l(2) [where c = c]) auto
    show "fst (Invoke pb (?s\<lparr>args := [Some ''transfer'', Some k, Some toOwnerId],
                            creator_result := Inr c\<rparr>))
            = shim_Error (Error_text TransferLocked)"
      if "get_error s0 k = None"
      using that get by (intro t(2) [where c = c]) auto
    show "kind (AlreadyLocked k (LockedToChannel a)) = Conflict" by simp
    show "kind TransferLocked = Conflict" by simp
  qed
qed

lemma created_and_locked_state:
  "state (invocations example_codec created_and_locked (example_stub [] (Some ''A'') Map.empty))
     ''assetA'' = Some ''channel2|A''"
  by (simp add: created_and_locked_def Invoke_defs create_def lock_def ownsAsset_def
        bytes_Equal_def Let_def example_stub_def example_codec_def)

theorem locked_asset_stays_frozen_witness:
  "state (invocations example_codec created_and_locked
            (example_stub [] (Some ''A'') Map.empty)) ''assetA''
     = Some ''channel2|A''
   \<and> state (invocations example_codec
              [([Some ''show'', Some ''assetA'', Some ''channel1''], Inr (Some ''B'')),
               ([Some ''transfer'', Some ''assetA'', Some ''B''], Inr (Some ''A''))]
              (invocations example_codec created_and_locked
                 (example_stub [] (Some ''A'') Map.empty))) ''assetA''
       = Some ''channel2|A''
   \<and> fst (Invoke example_codec
            ((invocations example_codec []
                (invocations example_codec created_and_locked
                   (example_stub [] (Some ''A'') Map.empty)))
               \<lparr>args := [Some ''lock'', Some ''assetA'', Some ''channel3''],
                 creator_result := Inr (Some ''B'')\<rparr>))
       = shim_Error ''Asset assetA is already locked to channel2''
   \<and> fst (Invoke example_codec
            ((invocations example_codec []
                (invocations example_codec created_and_locked
                   (example_stub [] (Some ''A'') Map.empty)))
               \<lparr>args := [Some ''transfer'', Some ''assetA'', Some ''B''],
                 creator_result := Inr (Some ''A'')\<rparr>))
       = shim_Error ''Cannot transfer an asset which has been locked to another channel''"
proof -
  have empty: "state (example_stub [] (Some ''A'') Map.empty) = Map.empty"
    by (simp add: example_stub_def)
  have decoded: "Unmarshal example_codec ''channel2|A'' = Inr locked_asset_of_A"
    by (simp add: example_codec_def locked_asset_of_A_def)
  have locked: "LockedToChannel locked_asset_of_A \<noteq> []"
    by (simp add: locked_asset_of_A_def)
  have get: "get_error (example_stub [] (Some ''A'') Map.empty) ''assetA'' = None"
    by (simp add: example_stub_def)
  note frozen =
    locked_asset_stays_frozen
      [OF example_codec_keeps_history empty created_and_locked_state decoded locked]
  show ?thesis
  proof (intro conjI)
    show "state (invocations example_codec created_and_locked
            (example_stub [] (Some ''A'') Map.empty)) ''assetA''
          = Some ''channel2|A''"
      by (rule created_and_locked_state)
    show "state (invocations example_codec
              [([Some ''show'', Some ''assetA'', Some ''channel1''], Inr (Some ''B'')),
               ([Some ''transfer'', Some ''assetA'', Some ''B''], Inr (Some ''A''))]
              (invocations example_codec created_and_locked
                 (example_stub [] (Some ''A'') Map.empty))) ''assetA''
          = Some ''channel2|A''"
      using frozen by (rule conjunct1)
    show "fst (Invoke example_codec
            ((invocations example_codec []
                (invocations example_codec created_and_locked
                   (example_stub [] (Some ''A'') Map.empty)))
               \<lparr>args := [Some ''lock'', Some ''assetA'', Some ''channel3''],
                 creator_result := Inr (Some ''B'')\<rparr>))
          = shim_Error ''Asset assetA is already locked to channel2''"
      using frozen [where txs' = "[]" and toChannel = "''channel3''" and c = "Some ''B''"] get
      by (simp add: locked_asset_of_A_def)
    show "fst (Invoke example_codec
            ((invocations example_codec []
                (invocations example_codec created_and_locked
                   (example_stub [] (Some ''A'') Map.empty)))
               \<lparr>args := [Some ''transfer'', Some ''assetA'', Some ''B''],
                 creator_result := Inr (Some ''A'')\<rparr>))
          = shim_Error ''Cannot transfer an asset which has been locked to another channel''"
      using frozen [where txs' = "[]" and toOwnerId = "''B''" and c = "Some ''A''"] get
      by simp
  qed
qed

text \<open>
  The ledger has to be one the chaincode has written: the handlers never store an asset
  without history, and on a ledger seeded with a locked one \<open>show\<close> would find its
  history shorter than the one it builds and store an unlocked asset in its place.
\<close>

lemma seeded_empty_history_replaced:
  "Unmarshal example_codec ''channel2'' = Inr \<lparr>LockedToChannel = ''channel2'', History = []\<rparr>
   \<and> Invoke example_codec
       (example_stub [Some ''show'', Some ''assetA'', Some ''channel1''] (Some ''B'')
          [''assetA'' \<mapsto> ''channel2''])
     = (shim_Success (Some ''|B|B''),
        example_stub [Some ''show'', Some ''assetA'', Some ''channel1''] (Some ''B'')
          [''assetA'' \<mapsto> ''|B|B''])"
  by (simp add: Invoke_defs show_op_def Let_def example_stub_def example_codec_def)

end
